theory Spec2Isabelle
  imports Complex_Main "HOL-Library.Sublist"
begin

section \<open>The data model of \<^verbatim>\<open>data_preparation.py\<close>\<close>

text \<open>
  The script works on one pandas DataFrame. A frame is modelled by the list of its column
  names (in header order) and the list of its rows (in index order). A row is a record
  with one field per column the script ever reads or writes; a field whose name is not in
  \<open>columns\<close> stands for a column the frame does not have, and every access to a column
  checks the name first and raises \<open>KeyError\<close>, as \<^verbatim>\<open>df['X']\<close> does.

  Column types follow the customer record of the data model: \<open>Age\<close>, \<open>Gender\<close> and
  \<open>Location\<close> are nullable (\<open>None\<close> is NaN/None), the three dates are nullable and
  arrive either as text or as timestamps, \<open>Frequency\<close> is a purchase count, the other
  numeric columns are numbers. Numbers are exact reals; instants are integers counting
  nanoseconds, the resolution of a pandas timestamp.
\<close>

datatype datecell =
    NaT
  | Raw string
  | Stamp int

record customer =
  CustomerID :: int
  Age :: "real option"
  Gender :: "string option"
  Location :: "string option"
  JoinDate :: datecell
  LastPurchaseDate :: datecell
  FirstPurchaseDate :: datecell
  Monetary :: real
  Frequency :: nat
  CustomerLifetimeDays :: real
  PurchaseFrequencyRate :: real
  Recency :: real
  CustomerSegment :: string
  ActivityStatus :: string
  Monetary_Capped :: real
  TenureMonths :: int
  DaysSinceLastPurchase :: "int option"
  AvgDaysBetweenPurchases :: real
  AgeGroup :: "string option"
  RevenueTier :: "string option"
  EstimatedCLV :: real

record frame =
  columns :: "string list"
  rows :: "customer list"

text \<open>The exceptions the script can meet, as values.\<close>

datatype exn =
    KeyError string
  | DateParseError string
  | TypeError string
  | IntCastingNaNError
  | ExternalError string

definition then_do :: "exn + 'a \<Rightarrow> ('a \<Rightarrow> exn + 'b) \<Rightarrow> exn + 'b" where
  "then_do m f = (case m of Inl e \<Rightarrow> Inl e | Inr x \<Rightarrow> f x)"

fun map_raise :: "('a \<Rightarrow> exn + 'b) \<Rightarrow> 'a list \<Rightarrow> exn + 'b list" where
  "map_raise f [] = Inr []"
| "map_raise f (x # xs) =
     (case f x of
        Inl e \<Rightarrow> Inl e
      | Inr y \<Rightarrow> (case map_raise f xs of Inl e \<Rightarrow> Inl e | Inr ys \<Rightarrow> Inr (y # ys)))"

definition has_column :: "string \<Rightarrow> frame \<Rightarrow> bool" where
  "has_column c df = (c \<in> set (columns df))"

text \<open>\<^verbatim>\<open>df[c] = ...\<close>: an existing column keeps its place, a new one goes last.\<close>

definition set_column :: "string \<Rightarrow> string list \<Rightarrow> string list" where
  "set_column c cs = (if c \<in> set cs then cs else cs @ [c])"

section \<open>Series operations used by the script\<close>

text \<open>\<^verbatim>\<open>Series.fillna(v)\<close> on one cell; filling with NaN leaves a null cell null.\<close>

definition fillna :: "'a option \<Rightarrow> 'a option \<Rightarrow> 'a option" where
  "fillna x v = (case x of None \<Rightarrow> v | Some a \<Rightarrow> Some a)"

definition non_null :: "'a option list \<Rightarrow> 'a list" where
  "non_null col = List.map_filter (\<lambda>x. x) col"

text \<open>\<^verbatim>\<open>Series.median()\<close>: nulls are skipped; NaN (\<open>None\<close>) when nothing is left.\<close>

definition median :: "real option list \<Rightarrow> real option" where
  "median col =
     (let xs = sort (non_null col); n = length xs
      in if n = 0 then None
         else if odd n then Some (xs ! (n div 2))
         else Some ((xs ! (n div 2 - 1) + xs ! (n div 2)) / 2))"

text \<open>
  \<^verbatim>\<open>Series.quantile(q)\<close> with the default linear interpolation between the two order
  statistics around position \<open>(n - 1) * q\<close>; NaN on an empty series.
\<close>

definition quantile :: "real list \<Rightarrow> real \<Rightarrow> real option" where
  "quantile col q =
     (let xs = sort col; n = length xs
      in if n = 0 then None
         else (let pos = real (n - 1) * q;
                   lo = nat \<lfloor>pos\<rfloor>;
                   hi = nat \<lceil>pos\<rceil>
               in Some (xs ! lo + (xs ! hi - xs ! lo) * (pos - real lo))))"

text \<open>The upper fence \<^verbatim>\<open>Q3 + 1.5 * IQR\<close> of a series (NaN on an empty one).\<close>

definition upper_fence :: "real list \<Rightarrow> real option" where
  "upper_fence col =
     (case quantile col (25 / 100) of
        None \<Rightarrow> None
      | Some Q1 \<Rightarrow>
          (case quantile col (75 / 100) of
             None \<Rightarrow> None
           | Some Q3 \<Rightarrow> Some (Q3 + (15 / 10) * (Q3 - Q1))))"

text \<open>\<^verbatim>\<open>Series.clip(upper=u)\<close> on one cell; a NaN threshold clips nothing.\<close>

definition clip_upper :: "real \<Rightarrow> real option \<Rightarrow> real" where
  "clip_upper x u = (case u of None \<Rightarrow> x | Some b \<Rightarrow> min x b)"

text \<open>
  \<^verbatim>\<open>pd.to_datetime\<close> on one cell with the default \<^verbatim>\<open>errors='raise'\<close>. The text
  parser of pandas is a parameter: \<open>parse s\<close> is the instant a text denotes, \<open>None\<close> when
  pandas cannot read it.
\<close>

fun to_datetime :: "(string \<Rightarrow> int option) \<Rightarrow> datecell \<Rightarrow> exn + datecell" where
  "to_datetime parse NaT = Inr NaT"
| "to_datetime parse (Stamp t) = Inr (Stamp t)"
| "to_datetime parse (Raw s) =
     (case parse s of None \<Rightarrow> Inl (DateParseError s) | Some t \<Rightarrow> Inr (Stamp t))"

text \<open>
  \<^verbatim>\<open>drop_duplicates(subset=['CustomerID'], keep='first')\<close>: one pass in index order
  that remembers the keys seen so far and keeps a row only at the first sight of its key.
\<close>

fun keep_first :: "int list \<Rightarrow> customer list \<Rightarrow> customer list" where
  "keep_first seen [] = []"
| "keep_first seen (r # rs) =
     (if CustomerID r \<in> set seen then keep_first seen rs
      else r # keep_first (CustomerID r # seen) rs)"

section \<open>The cleaning stage: \<^verbatim>\<open>clean_data\<close>\<close>

definition fill_age :: "frame \<Rightarrow> exn + frame" where
  "fill_age df =
     (if has_column ''Age'' df
      then (let m = median (map Age (rows df))
            in Inr (df\<lparr>rows := map (\<lambda>r. r\<lparr>Age := fillna (Age r) m\<rparr>) (rows df)\<rparr>))
      else Inl (KeyError ''Age''))"

definition fill_gender :: "frame \<Rightarrow> exn + frame" where
  "fill_gender df =
     (if has_column ''Gender'' df
      then Inr (df\<lparr>rows := map (\<lambda>r. r\<lparr>Gender := fillna (Gender r) (Some ''Unknown'')\<rparr>) (rows df)\<rparr>)
      else Inl (KeyError ''Gender''))"

definition fill_location :: "frame \<Rightarrow> exn + frame" where
  "fill_location df =
     (if has_column ''Location'' df
      then Inr (df\<lparr>rows := map (\<lambda>r. r\<lparr>Location := fillna (Location r) (Some ''Unknown'')\<rparr>) (rows df)\<rparr>)
      else Inl (KeyError ''Location''))"

definition conv_join :: "(string \<Rightarrow> int option) \<Rightarrow> customer \<Rightarrow> exn + customer" where
  "conv_join parse r = then_do (to_datetime parse (JoinDate r)) (\<lambda>d. Inr (r\<lparr>JoinDate := d\<rparr>))"

definition conv_last :: "(string \<Rightarrow> int option) \<Rightarrow> customer \<Rightarrow> exn + customer" where
  "conv_last parse r =
     then_do (to_datetime parse (LastPurchaseDate r)) (\<lambda>d. Inr (r\<lparr>LastPurchaseDate := d\<rparr>))"

definition conv_first :: "(string \<Rightarrow> int option) \<Rightarrow> customer \<Rightarrow> exn + customer" where
  "conv_first parse r =
     then_do (to_datetime parse (FirstPurchaseDate r)) (\<lambda>d. Inr (r\<lparr>FirstPurchaseDate := d\<rparr>))"

text \<open>One turn of the loop over \<^verbatim>\<open>date_columns\<close>: an absent column is skipped.\<close>

definition convert_column ::
  "string \<Rightarrow> (customer \<Rightarrow> exn + customer) \<Rightarrow> frame \<Rightarrow> exn + frame" where
  "convert_column c conv df =
     (if has_column c df
      then then_do (map_raise conv (rows df)) (\<lambda>rs. Inr (df\<lparr>rows := rs\<rparr>))
      else Inr df)"

definition convert_dates :: "(string \<Rightarrow> int option) \<Rightarrow> frame \<Rightarrow> exn + frame" where
  "convert_dates parse df =
     then_do (convert_column ''JoinDate'' (conv_join parse) df) (\<lambda>df.
     then_do (convert_column ''LastPurchaseDate'' (conv_last parse) df) (\<lambda>df.
     convert_column ''FirstPurchaseDate'' (conv_first parse) df))"

definition drop_duplicates :: "frame \<Rightarrow> exn + frame" where
  "drop_duplicates df =
     (if has_column ''CustomerID'' df
      then Inr (df\<lparr>rows := keep_first [] (rows df)\<rparr>)
      else Inl (KeyError ''CustomerID''))"

definition cap_monetary :: "frame \<Rightarrow> exn + frame" where
  "cap_monetary df =
     (if has_column ''Monetary'' df
      then (let u = upper_fence (map Monetary (rows df))
            in Inr (df\<lparr>columns := set_column ''Monetary_Capped'' (columns df),
                       rows := map (\<lambda>r. r\<lparr>Monetary_Capped := clip_upper (Monetary r) u\<rparr>) (rows df)\<rparr>))
      else Inl (KeyError ''Monetary''))"

definition clean_data :: "(string \<Rightarrow> int option) \<Rightarrow> frame \<Rightarrow> exn + frame" where
  "clean_data parse df =
     then_do (fill_age df) (\<lambda>df.
     then_do (fill_gender df) (\<lambda>df.
     then_do (fill_location df) (\<lambda>df.
     then_do (convert_dates parse df) (\<lambda>df.
     then_do (drop_duplicates df) (\<lambda>df.
     cap_monetary df)))))"

section \<open>The feature stage: \<^verbatim>\<open>add_derived_features\<close>\<close>

text \<open>
  The function has one parameter, the frame, and reads \<^verbatim>\<open>datetime.now()\<close> twice: once
  for \<open>TenureMonths\<close> and once more for \<open>DaysSinceLastPurchase\<close>. The two readings of
  the clock are the arguments \<open>now1\<close> and \<open>now2\<close> of the model, in program order.
\<close>

definition ns_per_day :: int where
  "ns_per_day = 86400000000000"

text \<open>
  \<^verbatim>\<open>(now - cell).days\<close>: the whole days of the difference, rounded down; NaN for
  NaT. Subtracting a text from a datetime is a \<open>TypeError\<close>.
\<close>

fun timedelta_days :: "int \<Rightarrow> datecell \<Rightarrow> exn + int option" where
  "timedelta_days now NaT = Inr None"
| "timedelta_days now (Stamp t) = Inr (Some ((now - t) div ns_per_day))"
| "timedelta_days now (Raw s) = Inl (TypeError s)"

text \<open>
  \<^verbatim>\<open>.astype(int)\<close> on one float cell: truncation towards zero; pandas refuses NaN
  with \<^verbatim>\<open>IntCastingNaNError\<close>.
\<close>

fun astype_int :: "real option \<Rightarrow> exn + int" where
  "astype_int None = Inl IntCastingNaNError"
| "astype_int (Some x) = Inr (if 0 \<le> x then \<lfloor>x\<rfloor> else \<lceil>x\<rceil>)"

definition tenure_months :: "int \<Rightarrow> frame \<Rightarrow> exn + frame" where
  "tenure_months now df =
     (if has_column ''JoinDate'' df
      then then_do (map_raise (\<lambda>r. timedelta_days now (JoinDate r)) (rows df)) (\<lambda>days.
           then_do (map_raise (\<lambda>d. astype_int (map_option (\<lambda>k. real_of_int k / 30) d)) days) (\<lambda>ms.
           Inr (df\<lparr>columns := set_column ''TenureMonths'' (columns df),
                   rows := map (\<lambda>(r, m). r\<lparr>TenureMonths := m\<rparr>) (zip (rows df) ms)\<rparr>)))
      else Inl (KeyError ''JoinDate''))"

definition days_since_last_purchase :: "int \<Rightarrow> frame \<Rightarrow> exn + frame" where
  "days_since_last_purchase now df =
     (if has_column ''LastPurchaseDate'' df
      then then_do (map_raise (\<lambda>r. timedelta_days now (LastPurchaseDate r)) (rows df)) (\<lambda>days.
           Inr (df\<lparr>columns := set_column ''DaysSinceLastPurchase'' (columns df),
                   rows := map (\<lambda>(r, d). r\<lparr>DaysSinceLastPurchase := d\<rparr>) (zip (rows df) days)\<rparr>))
      else Inl (KeyError ''LastPurchaseDate''))"

text \<open>\<^verbatim>\<open>Series.replace(0, 1)\<close> on one cell of \<open>Frequency\<close>.\<close>

definition replace_zero :: "nat \<Rightarrow> nat" where
  "replace_zero f = (if f = 0 then 1 else f)"

definition avg_days_of :: "customer \<Rightarrow> real" where
  "avg_days_of r = CustomerLifetimeDays r / real (replace_zero (Frequency r))"

definition avg_days_between_purchases :: "frame \<Rightarrow> exn + frame" where
  "avg_days_between_purchases df =
     (if \<not> has_column ''CustomerLifetimeDays'' df then Inl (KeyError ''CustomerLifetimeDays'')
      else if \<not> has_column ''Frequency'' df then Inl (KeyError ''Frequency'')
      else Inr (df\<lparr>columns := set_column ''AvgDaysBetweenPurchases'' (columns df),
                   rows := map (\<lambda>r. r\<lparr>AvgDaysBetweenPurchases := avg_days_of r\<rparr>) (rows df)\<rparr>))"

text \<open>
  \<^verbatim>\<open>pd.cut(x, bins, labels)\<close> on one cell, with the default \<^verbatim>\<open>right=True\<close>: the
  \<open>i\<close>-th label when \<open>bins[i] < x \<le> bins[i+1]\<close>, NaN when no bin holds \<open>x\<close> or \<open>x\<close>
  is NaN. The last edge of the revenue bins is \<^verbatim>\<open>float('inf')\<close>.
\<close>

datatype edge = Fin real | PosInf

fun edge_less :: "edge \<Rightarrow> real \<Rightarrow> bool" where
  "edge_less (Fin b) x = (b < x)"
| "edge_less PosInf x = False"

fun le_edge :: "real \<Rightarrow> edge \<Rightarrow> bool" where
  "le_edge x (Fin b) = (x \<le> b)"
| "le_edge x PosInf = True"

fun cut :: "edge list \<Rightarrow> string list \<Rightarrow> real \<Rightarrow> string option" where
  "cut (lo # hi # bins) (l # labels) x =
     (if edge_less lo x \<and> le_edge x hi then Some l else cut (hi # bins) labels x)"
| "cut bins labels x = None"

definition age_bins :: "edge list" where
  "age_bins = [Fin 0, Fin 25, Fin 35, Fin 45, Fin 55, Fin 65, Fin 100]"

definition age_labels :: "string list" where
  "age_labels = [''18-25'', ''26-35'', ''36-45'', ''46-55'', ''56-65'', ''65+'']"

definition revenue_bins :: "edge list" where
  "revenue_bins = [Fin 0, Fin 100, Fin 500, Fin 1000, Fin 5000, PosInf]"

definition revenue_labels :: "string list" where
  "revenue_labels = [''Very Low'', ''Low'', ''Medium'', ''High'', ''Very High'']"

definition age_group_of :: "real option \<Rightarrow> string option" where
  "age_group_of a = (case a of None \<Rightarrow> None | Some x \<Rightarrow> cut age_bins age_labels x)"

definition age_group :: "frame \<Rightarrow> exn + frame" where
  "age_group df =
     (if has_column ''Age'' df
      then Inr (df\<lparr>columns := set_column ''AgeGroup'' (columns df),
                   rows := map (\<lambda>r. r\<lparr>AgeGroup := age_group_of (Age r)\<rparr>) (rows df)\<rparr>)
      else Inl (KeyError ''Age''))"

definition revenue_tier :: "frame \<Rightarrow> exn + frame" where
  "revenue_tier df =
     (if has_column ''Monetary'' df
      then Inr (df\<lparr>columns := set_column ''RevenueTier'' (columns df),
                   rows := map (\<lambda>r. r\<lparr>RevenueTier := cut revenue_bins revenue_labels (Monetary r)\<rparr>) (rows df)\<rparr>)
      else Inl (KeyError ''Monetary''))"

definition clv_of :: "customer \<Rightarrow> real" where
  "clv_of r = Monetary r * (1 + PurchaseFrequencyRate r * 365)"

definition estimated_clv :: "frame \<Rightarrow> exn + frame" where
  "estimated_clv df =
     (if \<not> has_column ''Monetary'' df then Inl (KeyError ''Monetary'')
      else if \<not> has_column ''PurchaseFrequencyRate'' df then Inl (KeyError ''PurchaseFrequencyRate'')
      else Inr (df\<lparr>columns := set_column ''EstimatedCLV'' (columns df),
                   rows := map (\<lambda>r. r\<lparr>EstimatedCLV := clv_of r\<rparr>) (rows df)\<rparr>))"

definition add_derived_features :: "int \<Rightarrow> int \<Rightarrow> frame \<Rightarrow> exn + frame" where
  "add_derived_features now1 now2 df =
     then_do (tenure_months now1 df) (\<lambda>df.
     then_do (days_since_last_purchase now2 df) (\<lambda>df.
     then_do (avg_days_between_purchases df) (\<lambda>df.
     then_do (age_group df) (\<lambda>df.
     then_do (revenue_tier df) (\<lambda>df.
     estimated_clv df)))))"

section \<open>The run: \<^verbatim>\<open>main\<close> and its collaborators\<close>

text \<open>
  What the outside world answers during one run: whether \<^verbatim>\<open>pyodbc.connect\<close>
  succeeds, whether the query file can be read, what \<^verbatim>\<open>pd.read_sql\<close> returns, how
  pandas reads a date text, the two clock readings, and whether the CSV can be written.
\<close>

record world =
  connect :: "exn + unit"
  query_file :: "exn + string"
  read_sql :: "exn + frame"
  parse_text :: "string \<Rightarrow> int option"
  clock1 :: int
  clock2 :: int
  write_csv :: "exn + unit"

text \<open>What a run shows: the lines it prints and the closing of the connection.\<close>

datatype event =
    Starting
  | ConnectionSuccessful
  | ErrorConnecting exn
  | FailedToConnect
  | Fetched nat
  | ErrorFetching exn
  | FailedToFetch
  | ConnectionClosed
  | CleaningData
  | DataCleaned nat
  | AddingFeatures
  | FeaturesAdded
  | Exported
  | ErrorExporting exn
  | SummaryTotal nat
  | SummaryBlock
  | Completed

text \<open>How a run ends: \<^verbatim>\<open>main\<close> returns, or an exception leaves it.\<close>

datatype ending = Returned | Raised exn

definition create_connection :: "world \<Rightarrow> event list \<times> bool" where
  "create_connection w =
     (case connect w of
        Inr u \<Rightarrow> ([ConnectionSuccessful], True)
      | Inl e \<Rightarrow> ([ErrorConnecting e], False))"

definition fetch_customer_data :: "world \<Rightarrow> event list \<times> frame option" where
  "fetch_customer_data w =
     (case query_file w of
        Inl e \<Rightarrow> ([ErrorFetching e], None)
      | Inr q \<Rightarrow>
          (case read_sql w of
             Inl e \<Rightarrow> ([ErrorFetching e], None)
           | Inr df \<Rightarrow> ([Fetched (length (rows df))], Some df)))"

definition export_to_csv :: "world \<Rightarrow> frame \<Rightarrow> event list" where
  "export_to_csv w df =
     (case write_csv w of Inr u \<Rightarrow> [Exported] | Inl e \<Rightarrow> [ErrorExporting e])"

text \<open>
  \<^verbatim>\<open>generate_summary_stats\<close> prints the total, then reads five columns in turn; the
  first one the frame lacks raises \<open>KeyError\<close>.
\<close>

fun first_missing :: "string list \<Rightarrow> frame \<Rightarrow> string option" where
  "first_missing [] df = None"
| "first_missing (c # cs) df = (if has_column c df then first_missing cs df else Some c)"

definition generate_summary_stats :: "frame \<Rightarrow> event list \<times> ending" where
  "generate_summary_stats df =
     (case first_missing [''CustomerSegment'', ''Recency'', ''Frequency'', ''Monetary'', ''ActivityStatus''] df of
        Some c \<Rightarrow> ([SummaryTotal (length (rows df))], Raised (KeyError c))
      | None \<Rightarrow> ([SummaryTotal (length (rows df)), SummaryBlock], Returned))"

definition main :: "world \<Rightarrow> event list \<times> ending" where
  "main w =
     (case create_connection w of
        (l1, False) \<Rightarrow> (Starting # l1 @ [FailedToConnect], Returned)
      | (l1, True) \<Rightarrow>
          (case fetch_customer_data w of
             (l2, None) \<Rightarrow> (Starting # l1 @ l2 @ [FailedToFetch, ConnectionClosed], Returned)
           | (l2, Some df) \<Rightarrow>
               (case clean_data (parse_text w) df of
                  Inl e \<Rightarrow> (Starting # l1 @ l2 @ [ConnectionClosed, CleaningData], Raised e)
                | Inr c \<Rightarrow>
                    (case add_derived_features (clock1 w) (clock2 w) c of
                       Inl e \<Rightarrow>
                         (Starting # l1 @ l2 @
                            [ConnectionClosed, CleaningData, DataCleaned (length (rows c)), AddingFeatures],
                          Raised e)
                     | Inr d \<Rightarrow>
                         (let l3 = Starting # l1 @ l2 @
                                [ConnectionClosed, CleaningData, DataCleaned (length (rows c)),
                                 AddingFeatures, FeaturesAdded] @ export_to_csv w d
                          in (case generate_summary_stats d of
                                (l4, Raised e) \<Rightarrow> (l3 @ l4, Raised e)
                              | (l4, Returned) \<Rightarrow> (l3 @ l4 @ [Completed], Returned)))))))"

section \<open>Binary64 arithmetic\<close>



fun bit_length :: "nat \<Rightarrow> nat" where
  "bit_length n = (if n = 0 then 0 else Suc (bit_length (n div 2)))"

declare bit_length.simps [simp del]






section \<open>Notions used to state the properties\<close>




text \<open>A date cell pandas can convert, and what it converts to.\<close>

definition readable :: "(string \<Rightarrow> int option) \<Rightarrow> datecell \<Rightarrow> bool" where
  "readable parse d = (case d of Raw s \<Rightarrow> parse s \<noteq> None | _ \<Rightarrow> True)"

definition parsed :: "(string \<Rightarrow> int option) \<Rightarrow> datecell \<Rightarrow> datecell" where
  "parsed parse d =
     (case d of Raw s \<Rightarrow> (case parse s of None \<Rightarrow> Raw s | Some t \<Rightarrow> Stamp t) | _ \<Rightarrow> d)"

definition parsed_if :: "bool \<Rightarrow> (string \<Rightarrow> int option) \<Rightarrow> datecell \<Rightarrow> datecell" where
  "parsed_if present parse d = (if present then parsed parse d else d)"

definition dates_readable :: "(string \<Rightarrow> int option) \<Rightarrow> frame \<Rightarrow> bool" where
  "dates_readable parse df =
     ((has_column ''JoinDate'' df \<longrightarrow> list_all (\<lambda>r. readable parse (JoinDate r)) (rows df)) \<and>
      (has_column ''LastPurchaseDate'' df \<longrightarrow>
         list_all (\<lambda>r. readable parse (LastPurchaseDate r)) (rows df)) \<and>
      (has_column ''FirstPurchaseDate'' df \<longrightarrow>
         list_all (\<lambda>r. readable parse (FirstPurchaseDate r)) (rows df)))"

text \<open>
  The frames the cleaning stage completes on, and the frame it returns on them: every
  kept row with the median \<open>m\<close> for a null age, \<open>Unknown\<close> for a null gender or location,
  the present date columns converted, and the spend clipped at the fence \<open>u\<close>.
\<close>

definition cleanable :: "(string \<Rightarrow> int option) \<Rightarrow> frame \<Rightarrow> bool" where
  "cleanable parse df =
     (has_column ''Age'' df \<and> has_column ''Gender'' df \<and> has_column ''Location'' df \<and>
      dates_readable parse df \<and> has_column ''CustomerID'' df \<and> has_column ''Monetary'' df)"

definition cleaned_row ::
  "frame \<Rightarrow> (string \<Rightarrow> int option) \<Rightarrow> real option \<Rightarrow> real option \<Rightarrow> customer \<Rightarrow> customer" where
  "cleaned_row df parse m u r =
     r\<lparr>Age := fillna (Age r) m,
       Gender := fillna (Gender r) (Some ''Unknown''),
       Location := fillna (Location r) (Some ''Unknown''),
       JoinDate := parsed_if (has_column ''JoinDate'' df) parse (JoinDate r),
       LastPurchaseDate := parsed_if (has_column ''LastPurchaseDate'' df) parse (LastPurchaseDate r),
       FirstPurchaseDate := parsed_if (has_column ''FirstPurchaseDate'' df) parse (FirstPurchaseDate r),
       Monetary_Capped := clip_upper (Monetary r) u\<rparr>"

definition cleaned :: "(string \<Rightarrow> int option) \<Rightarrow> frame \<Rightarrow> frame" where
  "cleaned parse df =
     df\<lparr>columns := set_column ''Monetary_Capped'' (columns df),
        rows := map (cleaned_row df parse (median (map Age (rows df)))
                       (upper_fence (map Monetary (keep_first [] (rows df)))))
                    (keep_first [] (rows df))\<rparr>"







section \<open>Sample frames\<close>

text \<open>The columns the segmentation query returns.\<close>

definition source_columns :: "string list" where
  "source_columns =
     [''CustomerID'', ''Age'', ''Gender'', ''Location'', ''JoinDate'', ''LastPurchaseDate'',
      ''FirstPurchaseDate'', ''Monetary'', ''Frequency'', ''CustomerLifetimeDays'',
      ''PurchaseFrequencyRate'', ''Recency'', ''CustomerSegment'', ''ActivityStatus'']"

definition blank :: customer where
  "blank = \<lparr>CustomerID = 0, Age = None, Gender = None, Location = None, JoinDate = NaT,
     LastPurchaseDate = NaT, FirstPurchaseDate = NaT, Monetary = 0, Frequency = 0,
     CustomerLifetimeDays = 0, PurchaseFrequencyRate = 0, Recency = 0, CustomerSegment = [],
     ActivityStatus = [], Monetary_Capped = 0, TenureMonths = 0, DaysSinceLastPurchase = None,
     AvgDaysBetweenPurchases = 0, AgeGroup = None, RevenueTier = None, EstimatedCLV = 0\<rparr>"

text \<open>
  A customer who never bought again: aged exactly 25, no purchases counted over a
  lifetime of 90 days, spend 100 at a purchase rate of 0.01.
\<close>

definition dormant :: customer where
  "dormant = blank\<lparr>CustomerID := 3, Age := Some 25, JoinDate := Stamp 0,
     LastPurchaseDate := Stamp 0, Monetary := 100, Frequency := 0,
     CustomerLifetimeDays := 90, PurchaseFrequencyRate := 1 / 100\<rparr>"


text \<open>
  A fetched table of five rows: customer 7 twice (the second row a duplicate with another
  age), customer 8 without an age, and two more customers, one of them a big spender.
  The only date text pandas can read here is \<open>2020-01-01\<close>.
\<close>

definition iso_parse :: "string \<Rightarrow> int option" where
  "iso_parse s = (if s = ''2020-01-01'' then Some 1577836800000000000 else None)"

definition row_a :: customer where
  "row_a = blank\<lparr>CustomerID := 7, Age := Some 30, Gender := Some ''F'',
     JoinDate := Raw ''2020-01-01'', Monetary := 100\<rparr>"

definition row_b :: customer where
  "row_b = blank\<lparr>CustomerID := 8, Monetary := 150\<rparr>"

definition row_c :: customer where
  "row_c = blank\<lparr>CustomerID := 7, Age := Some 50, Monetary := 5000\<rparr>"

definition row_d :: customer where
  "row_d = blank\<lparr>CustomerID := 9, Age := Some 20, Monetary := 200\<rparr>"

definition row_e :: customer where
  "row_e = blank\<lparr>CustomerID := 10, Age := Some 60, Monetary := 1000\<rparr>"

definition fetched :: frame where
  "fetched = \<lparr>columns = source_columns, rows = [row_a, row_b, row_c, row_d, row_e]\<rparr>"

text \<open>
  A run in which the database answers: the connection opens, the query file is read and
  the query returns the given table; the clock stands at the first instant of 2020.
\<close>

definition online :: "frame \<Rightarrow> world" where
  "online df = \<lparr>connect = Inr (), query_file = Inr ''SELECT * FROM customers'', read_sql = Inr df,
     parse_text = iso_parse, clock1 = 1577836800000000000, clock2 = 1577836800000000000,
     write_csv = Inr ()\<rparr>"

text \<open>A fetched table in which one purchase date is no date.\<close>

definition garbled :: frame where
  "garbled = \<lparr>columns = source_columns,
     rows = [row_a, row_b\<lparr>LastPurchaseDate := Raw ''31/31/2020''\<rparr>]\<rparr>"

text \<open>The dormant customer without a join date, and without a last purchase date.\<close>

definition no_join_date :: frame where
  "no_join_date = \<lparr>columns = source_columns, rows = [dormant\<lparr>JoinDate := NaT\<rparr>]\<rparr>"

definition no_last_purchase :: frame where
  "no_last_purchase = \<lparr>columns = source_columns, rows = [dormant\<lparr>LastPurchaseDate := NaT\<rparr>]\<rparr>"






section \<open>Auxiliary facts\<close>




lemma to_datetime_readable: "readable parse d \<Longrightarrow> to_datetime parse d = Inr (parsed parse d)"
  by (cases d) (auto simp: readable_def parsed_def)

lemma to_datetime_Inr: "to_datetime parse d = Inr d' \<Longrightarrow> readable parse d"
  by (cases d) (auto simp: readable_def split: option.splits)

lemma map_raise_all: "(\<And>x. x \<in> set xs \<Longrightarrow> f x = Inr (g x)) \<Longrightarrow> map_raise f xs = Inr (map g xs)"
  by (induction xs) auto

lemma map_raise_Inl:
  "x \<in> set xs \<Longrightarrow> f x = Inl e \<Longrightarrow> \<exists>y \<in> set xs. \<exists>e'. f y = Inl e' \<and> map_raise f xs = Inl e'"
  by (induction xs) (auto split: sum.splits)

lemma convert_column_ok:
  assumes conv: "\<And>r. conv r = then_do (to_datetime parse (get r)) (\<lambda>d. Inr (put d r))"
    and same: "\<And>r. put (get r) r = r"
    and ok: "has_column c df \<longrightarrow> list_all (\<lambda>r. readable parse (get r)) (rows df)"
  shows "convert_column c conv df =
     Inr (df\<lparr>rows := map (\<lambda>r. put (parsed_if (has_column c df) parse (get r)) r) (rows df)\<rparr>)"
proof (cases "has_column c df")
  case False
  then show ?thesis by (simp add: convert_column_def parsed_if_def same)
next
  case True
  have "map_raise conv (rows df) = Inr (map (\<lambda>r. put (parsed parse (get r)) r) (rows df))"
    by (rule map_raise_all) (use ok True in \<open>auto simp: conv then_do_def list_all_iff to_datetime_readable\<close>)
  with True show ?thesis by (simp add: convert_column_def then_do_def parsed_if_def)
qed

lemma to_datetime_Inl: "to_datetime parse d = Inl e \<Longrightarrow> \<exists>s. d = Raw s \<and> parse s = None \<and> e = DateParseError s"
  by (cases d) (auto split: option.splits)

lemma convert_column_fail:
  assumes conv: "\<And>r. conv r = then_do (to_datetime parse (get r)) (\<lambda>d. Inr (put d r))"
    and has: "has_column c df"
    and bad: "\<not> list_all (\<lambda>r. readable parse (get r)) (rows df)"
  shows "\<exists>s. parse s = None \<and> convert_column c conv df = Inl (DateParseError s)"
proof -
  from bad obtain r where r: "r \<in> set (rows df)" "\<not> readable parse (get r)"
    by (auto simp: list_all_iff)
  then obtain e where "to_datetime parse (get r) = Inl e"
    by (cases "to_datetime parse (get r)") (auto dest: to_datetime_Inr)
  then have "conv r = Inl e" by (simp add: conv then_do_def)
  from map_raise_Inl[of r "rows df" conv e, OF r(1) this] obtain y e' where
    y: "conv y = Inl e'" "map_raise conv (rows df) = Inl e'"
    by blast
  from y(1) have "to_datetime parse (get y) = Inl e'"
    by (cases "to_datetime parse (get y)") (simp_all add: conv then_do_def)
  then obtain s where "parse s = None" "e' = DateParseError s"
    by (blast dest: to_datetime_Inl)
  with y(2) has show ?thesis
    by (auto simp: convert_column_def then_do_def)
qed

lemma convert_dates_ok:
  assumes "dates_readable parse df"
  shows "convert_dates parse df =
     Inr (df\<lparr>rows := map (\<lambda>r. r\<lparr>JoinDate := parsed_if (has_column ''JoinDate'' df) parse (JoinDate r),
                                 LastPurchaseDate := parsed_if (has_column ''LastPurchaseDate'' df) parse (LastPurchaseDate r),
                                 FirstPurchaseDate := parsed_if (has_column ''FirstPurchaseDate'' df) parse (FirstPurchaseDate r)\<rparr>)
                       (rows df)\<rparr>)"
proof -
  let ?d1 = "df\<lparr>rows := map (\<lambda>r. r\<lparr>JoinDate := parsed_if (has_column ''JoinDate'' df) parse (JoinDate r)\<rparr>) (rows df)\<rparr>"
  let ?d2 = "?d1\<lparr>rows := map (\<lambda>r. r\<lparr>LastPurchaseDate := parsed_if (has_column ''LastPurchaseDate'' ?d1) parse (LastPurchaseDate r)\<rparr>) (rows ?d1)\<rparr>"
  have 1: "convert_column ''JoinDate'' (conv_join parse) df = Inr ?d1"
    by (rule convert_column_ok[where get = JoinDate and put = "\<lambda>d r. r\<lparr>JoinDate := d\<rparr>"])
       (use assms in \<open>simp_all add: conv_join_def dates_readable_def\<close>)
  have 2: "convert_column ''LastPurchaseDate'' (conv_last parse) ?d1 = Inr ?d2"
    by (rule convert_column_ok[where get = LastPurchaseDate and put = "\<lambda>d r. r\<lparr>LastPurchaseDate := d\<rparr>"])
       (use assms in \<open>simp_all add: conv_last_def dates_readable_def has_column_def list_all_iff\<close>)
  have 3: "convert_column ''FirstPurchaseDate'' (conv_first parse) ?d2 =
       Inr (?d2\<lparr>rows := map (\<lambda>r. r\<lparr>FirstPurchaseDate := parsed_if (has_column ''FirstPurchaseDate'' ?d2) parse (FirstPurchaseDate r)\<rparr>) (rows ?d2)\<rparr>)"
    by (rule convert_column_ok[where get = FirstPurchaseDate and put = "\<lambda>d r. r\<lparr>FirstPurchaseDate := d\<rparr>"])
       (use assms in \<open>simp_all add: conv_first_def dates_readable_def has_column_def list_all_iff\<close>)
  have "convert_dates parse df =
       Inr (?d2\<lparr>rows := map (\<lambda>r. r\<lparr>FirstPurchaseDate := parsed_if (has_column ''FirstPurchaseDate'' ?d2) parse (FirstPurchaseDate r)\<rparr>) (rows ?d2)\<rparr>)"
    by (simp only: convert_dates_def then_do_def 1 2 3 sum.case)
  then show ?thesis by (simp add: has_column_def o_def)
qed

lemma convert_dates_fail:
  assumes "\<not> dates_readable parse df"
  shows "\<exists>s. parse s = None \<and> convert_dates parse df = Inl (DateParseError s)"
proof -
  consider (j) "has_column ''JoinDate'' df" "\<not> list_all (\<lambda>r. readable parse (JoinDate r)) (rows df)"
    | (l) "has_column ''JoinDate'' df \<longrightarrow> list_all (\<lambda>r. readable parse (JoinDate r)) (rows df)"
          "has_column ''LastPurchaseDate'' df" "\<not> list_all (\<lambda>r. readable parse (LastPurchaseDate r)) (rows df)"
    | (f) "has_column ''JoinDate'' df \<longrightarrow> list_all (\<lambda>r. readable parse (JoinDate r)) (rows df)"
          "has_column ''LastPurchaseDate'' df \<longrightarrow> list_all (\<lambda>r. readable parse (LastPurchaseDate r)) (rows df)"
          "has_column ''FirstPurchaseDate'' df" "\<not> list_all (\<lambda>r. readable parse (FirstPurchaseDate r)) (rows df)"
    using assms by (auto simp: dates_readable_def)
  then show ?thesis
  proof cases
    case j
    have "\<exists>s. parse s = None \<and> convert_column ''JoinDate'' (conv_join parse) df = Inl (DateParseError s)"
      by (rule convert_column_fail[where get = JoinDate and put = "\<lambda>d r. r\<lparr>JoinDate := d\<rparr>"])
         (use j in \<open>simp_all add: conv_join_def\<close>)
    then show ?thesis by (auto simp: convert_dates_def then_do_def)
  next
    case l
    let ?d1 = "df\<lparr>rows := map (\<lambda>r. r\<lparr>JoinDate := parsed_if (has_column ''JoinDate'' df) parse (JoinDate r)\<rparr>) (rows df)\<rparr>"
    have 1: "convert_column ''JoinDate'' (conv_join parse) df = Inr ?d1"
      by (rule convert_column_ok[where get = JoinDate and put = "\<lambda>d r. r\<lparr>JoinDate := d\<rparr>"])
         (use l in \<open>simp_all add: conv_join_def\<close>)
    have "\<exists>s. parse s = None \<and> convert_column ''LastPurchaseDate'' (conv_last parse) ?d1 = Inl (DateParseError s)"
      by (rule convert_column_fail[where get = LastPurchaseDate and put = "\<lambda>d r. r\<lparr>LastPurchaseDate := d\<rparr>"])
         (use l in \<open>simp_all add: conv_last_def has_column_def list_all_iff\<close>)
    then obtain s where "parse s = None" "convert_column ''LastPurchaseDate'' (conv_last parse) ?d1 = Inl (DateParseError s)" by blast
    then show ?thesis by (simp only: convert_dates_def then_do_def 1 sum.case) blast
  next
    case f
    let ?d1 = "df\<lparr>rows := map (\<lambda>r. r\<lparr>JoinDate := parsed_if (has_column ''JoinDate'' df) parse (JoinDate r)\<rparr>) (rows df)\<rparr>"
    let ?d2 = "?d1\<lparr>rows := map (\<lambda>r. r\<lparr>LastPurchaseDate := parsed_if (has_column ''LastPurchaseDate'' ?d1) parse (LastPurchaseDate r)\<rparr>) (rows ?d1)\<rparr>"
    have 1: "convert_column ''JoinDate'' (conv_join parse) df = Inr ?d1"
      by (rule convert_column_ok[where get = JoinDate and put = "\<lambda>d r. r\<lparr>JoinDate := d\<rparr>"])
         (use f in \<open>simp_all add: conv_join_def\<close>)
    have 2: "convert_column ''LastPurchaseDate'' (conv_last parse) ?d1 = Inr ?d2"
      by (rule convert_column_ok[where get = LastPurchaseDate and put = "\<lambda>d r. r\<lparr>LastPurchaseDate := d\<rparr>"])
         (use f in \<open>simp_all add: conv_last_def has_column_def list_all_iff\<close>)
    have "\<exists>s. parse s = None \<and> convert_column ''FirstPurchaseDate'' (conv_first parse) ?d2 = Inl (DateParseError s)"
      by (rule convert_column_fail[where get = FirstPurchaseDate and put = "\<lambda>d r. r\<lparr>FirstPurchaseDate := d\<rparr>"])
         (use f in \<open>simp_all add: conv_first_def has_column_def list_all_iff\<close>)
    then obtain s where "parse s = None" "convert_column ''FirstPurchaseDate'' (conv_first parse) ?d2 = Inl (DateParseError s)" by blast
    then show ?thesis by (simp only: convert_dates_def then_do_def 1 2 sum.case) blast
  qed
qed

lemma keep_first_map:
  "(\<And>r. CustomerID (f r) = CustomerID r) \<Longrightarrow> keep_first seen (map f rs) = map f (keep_first seen rs)"
  by (induction rs arbitrary: seen) simp_all

lemma keep_first_ids:
  "set (map CustomerID (keep_first seen rs)) = set (map CustomerID rs) - set seen"
  by (induction rs arbitrary: seen) auto

lemma keep_first_distinct: "distinct (map CustomerID (keep_first seen rs))"
proof (induction rs arbitrary: seen)
  case Nil
  show ?case by simp
next
  case (Cons r rs)
  have "CustomerID r \<notin> set (map CustomerID (keep_first (CustomerID r # seen) rs))"
    unfolding keep_first_ids by simp
  with Cons show ?case by simp
qed

lemma keep_first_same:
  "distinct (map CustomerID rs) \<Longrightarrow> set (map CustomerID rs) \<inter> set seen = {} \<Longrightarrow> keep_first seen rs = rs"
  by (induction rs arbitrary: seen) auto



lemma clean_data_ok:
  assumes "cleanable parse df"
  shows "clean_data parse df = Inr (cleaned parse df)"
proof -
  let ?m = "median (map Age (rows df))"
  let ?f = "\<lambda>r. r\<lparr>Age := fillna (Age r) ?m, Gender := fillna (Gender r) (Some ''Unknown''),
                 Location := fillna (Location r) (Some ''Unknown'')\<rparr>"
  let ?d3 = "df\<lparr>rows := map ?f (rows df)\<rparr>"
  let ?g = "\<lambda>r. r\<lparr>JoinDate := parsed_if (has_column ''JoinDate'' ?d3) parse (JoinDate r),
                 LastPurchaseDate := parsed_if (has_column ''LastPurchaseDate'' ?d3) parse (LastPurchaseDate r),
                 FirstPurchaseDate := parsed_if (has_column ''FirstPurchaseDate'' ?d3) parse (FirstPurchaseDate r)\<rparr>"
  let ?d4 = "?d3\<lparr>rows := map ?g (rows ?d3)\<rparr>"
  from assms have cols: "has_column ''Age'' df" "has_column ''Gender'' df" "has_column ''Location'' df"
    "has_column ''CustomerID'' df" "has_column ''Monetary'' df" and dr: "dates_readable parse df"
    by (simp_all add: cleanable_def)
  have fills: "then_do (fill_age df) (\<lambda>df. then_do (fill_gender df) (\<lambda>df. then_do (fill_location df) k)) = k ?d3" for k :: "frame \<Rightarrow> exn + frame"
    using cols by (simp add: fill_age_def fill_gender_def fill_location_def then_do_def has_column_def o_def)
  have "dates_readable parse ?d3"
    using dr by (simp add: dates_readable_def has_column_def list_all_iff)
  then have conv: "convert_dates parse ?d3 = Inr ?d4"
    by (rule convert_dates_ok)
  have kf: "keep_first [] (rows ?d4) = map (?g \<circ> ?f) (keep_first [] (rows df))"
    by (simp add: keep_first_map)
  have dd: "drop_duplicates ?d4 = Inr (?d4\<lparr>rows := map (?g \<circ> ?f) (keep_first [] (rows df))\<rparr>)"
    unfolding drop_duplicates_def kf using cols by (simp add: has_column_def)
  have cap: "cap_monetary (?d4\<lparr>rows := map (?g \<circ> ?f) (keep_first [] (rows df))\<rparr>) = Inr (cleaned parse df)"
    using cols by (simp add: cap_monetary_def cleaned_def cleaned_row_def has_column_def o_def)
  show ?thesis
    unfolding clean_data_def fills by (simp only: conv dd cap then_do_def sum.case)
qed

lemma clean_data_fail:
  assumes "\<not> cleanable parse df"
  shows "\<exists>e. clean_data parse df = Inl e"
proof -
  let ?m = "median (map Age (rows df))"
  let ?f = "\<lambda>r. r\<lparr>Age := fillna (Age r) ?m, Gender := fillna (Gender r) (Some ''Unknown''),
                 Location := fillna (Location r) (Some ''Unknown'')\<rparr>"
  let ?d3 = "df\<lparr>rows := map ?f (rows df)\<rparr>"
  show ?thesis
  proof (cases "has_column ''Age'' df \<and> has_column ''Gender'' df \<and> has_column ''Location'' df")
    case False
    then show ?thesis
      by (auto simp: clean_data_def fill_age_def fill_gender_def fill_location_def then_do_def has_column_def)
  next
    case True
    then have fills: "then_do (fill_age df) (\<lambda>df. then_do (fill_gender df) (\<lambda>df. then_do (fill_location df) k)) = k ?d3"
      for k :: "frame \<Rightarrow> exn + frame"
      by (simp add: fill_age_def fill_gender_def fill_location_def then_do_def has_column_def o_def)
    show ?thesis
    proof (cases "dates_readable parse df")
      case False
      then have "\<not> dates_readable parse ?d3"
        by (simp add: dates_readable_def has_column_def list_all_iff)
      then obtain s where "convert_dates parse ?d3 = Inl (DateParseError s)"
        using convert_dates_fail by blast
      then show ?thesis unfolding clean_data_def fills by (simp add: then_do_def)
    next
      case dr: True
      then have "dates_readable parse ?d3"
        by (simp add: dates_readable_def has_column_def list_all_iff)
      from convert_dates_ok[OF this] obtain d4 where
        conv: "convert_dates parse ?d3 = Inr d4" and c4: "columns d4 = columns df"
        by simp
      from assms True dr have "\<not> has_column ''CustomerID'' df \<or> \<not> has_column ''Monetary'' df"
        by (simp add: cleanable_def)
      then show ?thesis
        unfolding clean_data_def fills
        by (auto simp: conv then_do_def drop_duplicates_def cap_monetary_def has_column_def c4)
    qed
  qed
qed

lemma clean_data_Inr: "clean_data parse df = Inr out \<Longrightarrow> cleanable parse df \<and> out = cleaned parse df"
  using clean_data_ok[of parse df] clean_data_fail[of parse df] by (cases "cleanable parse df") auto

lemma median_None: "median col = None \<longleftrightarrow> (\<forall>x \<in> set col. x = None)"
proof -
  have "non_null col = [] \<longleftrightarrow> (\<forall>x \<in> set col. x = None)"
    by (induction col) (auto simp: non_null_def split: option.splits)
  moreover have "sort (non_null col) = [] \<longleftrightarrow> non_null col = []"
    using length_sort[of "\<lambda>x. x" "non_null col"] by (metis length_0_conv)
  then have "median col \<noteq> None" if "non_null col \<noteq> []"
    using that by (simp add: median_def Let_def del: not_None_eq)
  moreover have "median col = None" if "non_null col = []"
    using that by (simp add: median_def)
  ultimately show ?thesis by blast
qed

lemma keep_first_subset: "set (keep_first seen rs) \<subseteq> set rs"
  by (induction rs arbitrary: seen) auto

lemma readable_parsed: "readable parse d \<Longrightarrow> readable parse (parsed parse d)"
  by (cases d) (auto simp: readable_def parsed_def split: option.splits)

lemma parsed_twice: "parsed parse (parsed parse d) = parsed parse d"
  by (cases d) (auto simp: parsed_def split: option.splits)

lemma has_column_cleaned:
  "c \<noteq> ''Monetary_Capped'' \<Longrightarrow> has_column c (cleaned parse df) = has_column c df"
  by (auto simp: has_column_def cleaned_def set_column_def)

lemma cleanable_cleaned:
  assumes "cleanable parse df"
  shows "cleanable parse (cleaned parse df)"
proof -
  have sub: "set (keep_first [] (rows df)) \<subseteq> set (rows df)"
    by (rule keep_first_subset)
  from assms have dr: "dates_readable parse df" by (simp add: cleanable_def)
  have "dates_readable parse (cleaned parse df)"
    unfolding dates_readable_def has_column_cleaned[of "''JoinDate''", simplified]
      has_column_cleaned[of "''LastPurchaseDate''", simplified]
      has_column_cleaned[of "''FirstPurchaseDate''", simplified]
    using dr sub
    by (auto simp: dates_readable_def cleaned_def cleaned_row_def list_all_iff parsed_if_def readable_parsed)
  with assms show ?thesis
    by (simp add: cleanable_def has_column_cleaned)
qed

lemma cleaned_twice:
  assumes "cleanable parse df"
  shows "cleaned parse (cleaned parse df) = cleaned parse df"
proof -
  let ?m = "median (map Age (rows df))"
  let ?u = "upper_fence (map Monetary (keep_first [] (rows df)))"
  let ?R = "map (cleaned_row df parse ?m ?u) (keep_first [] (rows df))"
  let ?c = "cleaned parse df"
  have rows: "rows ?c = ?R" by (simp add: cleaned_def)
  have ids: "map CustomerID ?R = map CustomerID (keep_first [] (rows df))"
    by (simp add: cleaned_row_def)
  have same: "keep_first [] ?R = ?R"
    by (rule keep_first_same) (simp_all only: ids keep_first_distinct, simp)
  have mon: "map Monetary ?R = map Monetary (keep_first [] (rows df))"
    by (simp add: cleaned_row_def)
  have fence: "upper_fence (map Monetary (keep_first [] (rows ?c))) = ?u"
    by (simp only: rows same mon)
  have fixed: "cleaned_row ?c parse (median (map Age ?R)) ?u r' = r'" if "r' \<in> set ?R" for r'
  proof -
    from that obtain r where r: "r \<in> set (keep_first [] (rows df))" and r': "r' = cleaned_row df parse ?m ?u r"
      by auto
    have age: "fillna (Age r') (median (map Age ?R)) = Age r'"
    proof (cases "Age r'")
      case (Some a) then show ?thesis by (simp add: fillna_def)
    next
      case None
      then have "?m = None" using r' by (cases "Age r") (simp_all add: cleaned_row_def fillna_def)
      then have "\<forall>x \<in> set (rows df). Age x = None" by (simp add: median_None)
      moreover have "set (keep_first [] (rows df)) \<subseteq> set (rows df)"
        by (rule keep_first_subset)
      ultimately have "\<forall>x \<in> set ?R. Age x = None"
        using \<open>?m = None\<close> by (auto simp: cleaned_row_def fillna_def)
      then have "median (map Age ?R) = None" unfolding median_None by auto
      with None show ?thesis by (simp add: fillna_def)
    qed
    have g: "fillna (Gender r') (Some ''Unknown'') = Gender r'"
      "fillna (Location r') (Some ''Unknown'') = Location r'"
      unfolding r' by (simp_all add: cleaned_row_def fillna_def split: option.splits)
    have d: "parsed_if (has_column ''JoinDate'' ?c) parse (JoinDate r') = JoinDate r'"
      "parsed_if (has_column ''LastPurchaseDate'' ?c) parse (LastPurchaseDate r') = LastPurchaseDate r'"
      "parsed_if (has_column ''FirstPurchaseDate'' ?c) parse (FirstPurchaseDate r') = FirstPurchaseDate r'"
      unfolding r' by (simp_all add: has_column_cleaned cleaned_row_def parsed_if_def parsed_twice)
    have c: "clip_upper (Monetary r') ?u = Monetary_Capped r'"
      unfolding r' by (simp add: cleaned_row_def)
    show ?thesis
      unfolding cleaned_row_def[of ?c] age g d c by simp
  qed
  have "map (cleaned_row ?c parse (median (map Age ?R)) ?u) ?R = ?R"
    by (rule map_idI) (rule fixed)
  then have "rows (cleaned parse ?c) = rows ?c"
    unfolding cleaned_def[of parse ?c] fence unfolding rows same by simp
  moreover have "columns (cleaned parse ?c) = columns ?c"
    by (simp add: cleaned_def set_column_def)
  ultimately show ?thesis
    by (simp add: cleaned_def[of parse ?c])
qed

lemma clean_data_parse_error:
  assumes "has_column ''Age'' df" "has_column ''Gender'' df" "has_column ''Location'' df"
    and "\<not> dates_readable parse df"
  shows "\<exists>s. parse s = None \<and> clean_data parse df = Inl (DateParseError s)"
proof -
  let ?m = "median (map Age (rows df))"
  let ?f = "\<lambda>r. r\<lparr>Age := fillna (Age r) ?m, Gender := fillna (Gender r) (Some ''Unknown''),
                 Location := fillna (Location r) (Some ''Unknown'')\<rparr>"
  let ?d3 = "df\<lparr>rows := map ?f (rows df)\<rparr>"
  from assms(1-3) have fills:
    "then_do (fill_age df) (\<lambda>df. then_do (fill_gender df) (\<lambda>df. then_do (fill_location df) k)) = k ?d3"
    for k :: "frame \<Rightarrow> exn + frame"
    by (simp add: fill_age_def fill_gender_def fill_location_def then_do_def has_column_def o_def)
  from assms(4) have "\<not> dates_readable parse ?d3"
    by (simp add: dates_readable_def has_column_def list_all_iff)
  then obtain s where "parse s = None" "convert_dates parse ?d3 = Inl (DateParseError s)"
    using convert_dates_fail by blast
  then show ?thesis unfolding clean_data_def fills by (auto simp: then_do_def)
qed






lemma main_clean_raises:
  assumes "connect w = Inr u" and "query_file w = Inr q" and "read_sql w = Inr df"
    and "clean_data (parse_text w) df = Inl e"
  shows "main w = ([Starting, ConnectionSuccessful, Fetched (length (rows df)), ConnectionClosed,
                    CleaningData], Raised e)"
  using assms by (simp add: main_def create_connection_def fetch_customer_data_def)

lemma not_dates_readable:
  assumes "(has_column ''JoinDate'' df \<and> (\<exists>r \<in> set (rows df). \<exists>s. JoinDate r = Raw s \<and> parse s = None)) \<or>
           (has_column ''LastPurchaseDate'' df \<and>
              (\<exists>r \<in> set (rows df). \<exists>s. LastPurchaseDate r = Raw s \<and> parse s = None)) \<or>
           (has_column ''FirstPurchaseDate'' df \<and>
              (\<exists>r \<in> set (rows df). \<exists>s. FirstPurchaseDate r = Raw s \<and> parse s = None))"
  shows "\<not> dates_readable parse df"
proof
  assume ok: "dates_readable parse df"
  have no: "\<not> (\<exists>s. d = Raw s \<and> parse s = None)" if "readable parse d" for d
    using that by (cases d) (auto simp: readable_def)
  from assms consider
      (j) r where "has_column ''JoinDate'' df" "r \<in> set (rows df)" "\<exists>s. JoinDate r = Raw s \<and> parse s = None"
    | (l) r where "has_column ''LastPurchaseDate'' df" "r \<in> set (rows df)"
        "\<exists>s. LastPurchaseDate r = Raw s \<and> parse s = None"
    | (f) r where "has_column ''FirstPurchaseDate'' df" "r \<in> set (rows df)"
        "\<exists>s. FirstPurchaseDate r = Raw s \<and> parse s = None"
    by blast
  then show False
  proof cases
    case j
    with ok have "readable parse (JoinDate r)" by (simp add: dates_readable_def list_all_iff)
    with j(3) no show False by blast
  next
    case l
    with ok have "readable parse (LastPurchaseDate r)" by (simp add: dates_readable_def list_all_iff)
    with l(3) no show False by blast
  next
    case f
    with ok have "readable parse (FirstPurchaseDate r)" by (simp add: dates_readable_def list_all_iff)
    with f(3) no show False by blast
  qed
qed














lemma main_derive_raises:
  assumes "connect w = Inr u" and "query_file w = Inr q" and "read_sql w = Inr df"
    and "clean_data (parse_text w) df = Inr c"
    and "add_derived_features (clock1 w) (clock2 w) c = Inl e"
  shows "main w = ([Starting, ConnectionSuccessful, Fetched (length (rows df)), ConnectionClosed,
                    CleaningData, DataCleaned (length (rows c)), AddingFeatures], Raised e)"
  using assms by (simp add: main_def create_connection_def fetch_customer_data_def)


lemma bit_length_numeral [simp]:
  "bit_length (numeral k) = Suc (bit_length (numeral k div 2))"
  by (subst bit_length.simps) simp

lemma bit_length_0 [simp]: "bit_length 0 = 0"
  by (subst bit_length.simps) simp

lemma bit_length_Suc0 [simp]: "bit_length (Suc 0) = Suc 0"
  by (subst bit_length.simps) simp

lemmas stage_defs = add_derived_features_def tenure_months_def days_since_last_purchase_def
  avg_days_between_purchases_def age_group_def revenue_tier_def estimated_clv_def then_do_def
  has_column_def set_column_def

lemmas sample_rows = row_a_def row_b_def row_c_def row_d_def row_e_def blank_def


lemma fetched_cleanable: "cleanable iso_parse fetched"
  by (simp add: cleanable_def dates_readable_def has_column_def fetched_def source_columns_def
      readable_def iso_parse_def sample_rows)

lemma fetched_kept: "keep_first [] (rows fetched) = [row_a, row_b, row_d, row_e]"
  by (simp add: fetched_def sample_rows)









section \<open>The order of the cleaning steps\<close>



section \<open>The capping bound\<close>



section \<open>A date that cannot be read\<close>

text \<open>
  Claim C10. When a date column that is present holds a text pandas cannot read as a
  date, the cleaning stage raises: it returns no table, so the bad cell is never turned
  into a null for its row alone. With the three imputed columns present the exception is
  the parse error of such a text. Nothing in \<^verbatim>\<open>main\<close> catches it, and the run ends with
  that exception.
\<close>

theorem unparseable_date_aborts:
  assumes "(has_column ''JoinDate'' df \<and> (\<exists>r \<in> set (rows df). \<exists>s. JoinDate r = Raw s \<and> parse s = None)) \<or>
           (has_column ''LastPurchaseDate'' df \<and>
              (\<exists>r \<in> set (rows df). \<exists>s. LastPurchaseDate r = Raw s \<and> parse s = None)) \<or>
           (has_column ''FirstPurchaseDate'' df \<and>
              (\<exists>r \<in> set (rows df). \<exists>s. FirstPurchaseDate r = Raw s \<and> parse s = None))"
  shows "(\<exists>e. clean_data parse df = Inl e) \<and>
         (has_column ''Age'' df \<and> has_column ''Gender'' df \<and> has_column ''Location'' df \<longrightarrow>
            (\<exists>s. parse s = None \<and> clean_data parse df = Inl (DateParseError s))) \<and>
         (\<forall>w u q. connect w = Inr u \<and> query_file w = Inr q \<and> read_sql w = Inr df \<and> parse_text w = parse \<longrightarrow>
            (\<exists>e. clean_data parse df = Inl e \<and> snd (main w) = Raised e))"
proof -
  from assms have bad: "\<not> dates_readable parse df" by (rule not_dates_readable)
  then have "\<not> cleanable parse df" by (simp add: cleanable_def)
  then obtain e where e: "clean_data parse df = Inl e" using clean_data_fail by blast
  have "\<exists>e. clean_data parse df = Inl e \<and> snd (main w) = Raised e"
    if "connect w = Inr u" "query_file w = Inr q" "read_sql w = Inr df" "parse_text w = parse" for w u q
    using main_clean_raises[of w u q df e] that e by simp
  then have m: "\<forall>w u q. connect w = Inr u \<and> query_file w = Inr q \<and> read_sql w = Inr df \<and> parse_text w = parse \<longrightarrow>
            (\<exists>e. clean_data parse df = Inl e \<and> snd (main w) = Raised e)"
    by blast
  have p: "has_column ''Age'' df \<and> has_column ''Gender'' df \<and> has_column ''Location'' df \<longrightarrow>
            (\<exists>s. parse s = None \<and> clean_data parse df = Inl (DateParseError s))"
    using clean_data_parse_error[of df parse] bad by blast
  from e m p show ?thesis by blast
qed

theorem unparseable_date_aborts_witness:
  "clean_data iso_parse garbled = Inl (DateParseError ''31/31/2020'') \<and>
   snd (main (online garbled)) = Raised (DateParseError ''31/31/2020'')"
proof -
  have r: "row_b\<lparr>LastPurchaseDate := Raw ''31/31/2020''\<rparr> \<in> set (rows garbled)"
    by (simp add: garbled_def)
  have h: "(has_column ''JoinDate'' garbled \<and> (\<exists>r \<in> set (rows garbled). \<exists>s. JoinDate r = Raw s \<and> iso_parse s = None)) \<or>
           (has_column ''LastPurchaseDate'' garbled \<and>
              (\<exists>r \<in> set (rows garbled). \<exists>s. LastPurchaseDate r = Raw s \<and> iso_parse s = None)) \<or>
           (has_column ''FirstPurchaseDate'' garbled \<and>
              (\<exists>r \<in> set (rows garbled). \<exists>s. FirstPurchaseDate r = Raw s \<and> iso_parse s = None))"
    by (simp add: garbled_def has_column_def source_columns_def sample_rows iso_parse_def)
  have c: "has_column ''Age'' garbled \<and> has_column ''Gender'' garbled \<and> has_column ''Location'' garbled"
    by (simp add: garbled_def has_column_def source_columns_def)
  have p: "iso_parse s = None \<Longrightarrow> s \<noteq> ''2020-01-01''" for s
    by (auto simp: iso_parse_def)
  have w: "connect (online garbled) = Inr () \<and> query_file (online garbled) = Inr ''SELECT * FROM customers'' \<and>
           read_sql (online garbled) = Inr garbled \<and> parse_text (online garbled) = iso_parse"
    by (simp add: online_def)
  have v: "clean_data iso_parse garbled = Inl (DateParseError ''31/31/2020'')"
    by (simp add: clean_data_def fill_age_def fill_gender_def fill_location_def convert_dates_def
        convert_column_def conv_join_def conv_last_def conv_first_def then_do_def has_column_def
        garbled_def source_columns_def sample_rows iso_parse_def fillna_def median_def non_null_def)
  from unparseable_date_aborts [OF h] w v show ?thesis by auto
qed

section \<open>The cleaning stage is idempotent\<close>

text \<open>
  Claim C7. The cleaning stage is idempotent: whenever it completes on a table, running
  it again on its own output completes too and returns that output unchanged, so that
  \<open>clean(clean(x)) = clean(x)\<close>.
\<close>

theorem clean_idempotent:
  assumes "clean_data parse df = Inr out"
  shows "clean_data parse out = Inr out"
proof -
  from assms have c: "cleanable parse df" and o: "out = cleaned parse df"
    by (simp_all add: clean_data_Inr)
  from c have "clean_data parse (cleaned parse df) = Inr (cleaned parse (cleaned parse df))"
    by (intro clean_data_ok cleanable_cleaned)
  with c o show ?thesis by (simp add: cleaned_twice)
qed

theorem clean_idempotent_witness:
  "clean_data iso_parse fetched = Inr (cleaned iso_parse fetched) \<and>
   clean_data iso_parse (cleaned iso_parse fetched) = Inr (cleaned iso_parse fetched) \<and>
   map CustomerID (rows (cleaned iso_parse fetched)) = [7, 8, 9, 10]"
proof -
  have h: "clean_data iso_parse fetched = Inr (cleaned iso_parse fetched)"
    using fetched_cleanable by (rule clean_data_ok)
  have "map CustomerID (rows (cleaned iso_parse fetched)) = [7, 8, 9, 10]"
    by (simp add: cleaned_def fetched_kept cleaned_row_def sample_rows)
  with h clean_idempotent [OF h] show ?thesis by simp
qed

section \<open>Age groups\<close>



section \<open>Average days between purchases\<close>



section \<open>A missing date in the feature stage\<close>

text \<open>
  Claim C3 says that a row without a date a formula needs gets a null in that derived
  field only and that the stage still completes. The code does so for a null
  \<open>LastPurchaseDate\<close>: \<open>DaysSinceLastPurchase\<close> is null for that row and the other columns
  are filled. It does not for a null \<open>JoinDate\<close>: the days are NaN for that row, and
  \<^verbatim>\<open>.astype(int)\<close> refuses the whole column, so the stage raises and returns no table.
\<close>

theorem null_join_date_aborts:
  "add_derived_features (40 * ns_per_day) (40 * ns_per_day) no_join_date = Inl IntCastingNaNError \<and>
   (\<exists>out. add_derived_features (40 * ns_per_day) (40 * ns_per_day) no_last_purchase = Inr out \<and>
          map DaysSinceLastPurchase (rows out) = [None] \<and> map TenureMonths (rows out) = [1])"
  by (simp add: stage_defs no_join_date_def no_last_purchase_def source_columns_def dormant_def blank_def
      ns_per_day_def)

section \<open>Faults and how the run ends\<close>




section \<open>The clock of the feature stage\<close>




section \<open>The lifetime value estimate\<close>




end
